theory Spec2Isabelle
  imports Main
begin

section \<open>Password strength: \<open>app/utils/security.py\<close>\<close>

text \<open>
  A Python \<open>str\<close> is a sequence of code points. The password is a list over an
  arbitrary character type \<open>'c\<close>, and the three character classes the source asks
  Python for (\<open>str.isupper\<close>, \<open>str.islower\<close>, \<open>str.isdigit\<close>, which read the
  Unicode database) are parameters of the model: every result below holds for any
  classification of the characters. Messages are byte strings in Latin-1, the
  accented letters written by their code.
\<close>

definition err_min_length :: string where
  "err_min_length =
     ''La contrase'' @ [CHR 0xF1] @ ''a debe tener al menos 8 caracteres''"

definition err_uppercase :: string where
  "err_uppercase =
     ''La contrase'' @ [CHR 0xF1] @ ''a debe contener al menos una may'' @ [CHR 0xFA] @ ''scula''"

definition err_lowercase :: string where
  "err_lowercase =
     ''La contrase'' @ [CHR 0xF1] @ ''a debe contener al menos una min'' @ [CHR 0xFA] @ ''scula''"

definition err_digit :: string where
  "err_digit =
     ''La contrase'' @ [CHR 0xF1] @ ''a debe contener al menos un n'' @ [CHR 0xFA] @ ''mero''"

text \<open>
  \<^verbatim>\<open>
  def validate_password_strength(password):
      errors = []
      if len(password) < 8:                        errors.append(<8 caracteres>)
      if not any(c.isupper() for c in password):   errors.append(<mayuscula>)
      if not any(c.islower() for c in password):   errors.append(<minuscula>)
      if not any(c.isdigit() for c in password):   errors.append(<numero>)
      return (len(errors) == 0, errors)
  \<close>
  Each \<open>append\<close> is one step of the state \<open>errors\<close>.
\<close>

definition validate_password_strength ::
  "('c \<Rightarrow> bool) \<Rightarrow> ('c \<Rightarrow> bool) \<Rightarrow> ('c \<Rightarrow> bool) \<Rightarrow> 'c list \<Rightarrow> bool \<times> string list" where
  "validate_password_strength isupper islower isdigit password =
     (let errors0 = [];
          errors1 = (if length password < 8 then errors0 @ [err_min_length] else errors0);
          errors2 = (if \<not> list_ex isupper password then errors1 @ [err_uppercase] else errors1);
          errors3 = (if \<not> list_ex islower password then errors2 @ [err_lowercase] else errors2);
          errors4 = (if \<not> list_ex isdigit password then errors3 @ [err_digit] else errors3)
      in (length errors4 = 0, errors4))"

text \<open>The ASCII part of Python's character classes, for concrete runs.\<close>

definition ascii_isupper :: "char \<Rightarrow> bool" where
  "ascii_isupper c = ((65::nat) \<le> of_char c \<and> of_char c \<le> (90::nat))"

definition ascii_islower :: "char \<Rightarrow> bool" where
  "ascii_islower c = ((97::nat) \<le> of_char c \<and> of_char c \<le> (122::nat))"

definition ascii_isdigit :: "char \<Rightarrow> bool" where
  "ascii_isdigit c = ((48::nat) \<le> of_char c \<and> of_char c \<le> (57::nat))"

text \<open>How many of the four rules a password breaks.\<close>

definition violated_rules ::
  "('c \<Rightarrow> bool) \<Rightarrow> ('c \<Rightarrow> bool) \<Rightarrow> ('c \<Rightarrow> bool) \<Rightarrow> 'c list \<Rightarrow> nat" where
  "violated_rules isupper islower isdigit password =
     (if length password < 8 then 1 else 0) +
     (if list_ex isupper password then 0 else 1) +
     (if list_ex islower password then 0 else 1) +
     (if list_ex isdigit password then 0 else 1)"

section \<open>Exceptions and time\<close>

text \<open>
  Every \<open>raise\<close> of the source is a value: a function that can raise returns
  \<open>error + 'a\<close>, \<open>Inl\<close> carrying the exception. \<open>UnknownHashError\<close> is the
  exception of the password-hashing library for a digest it cannot identify, and
  \<open>ValueError\<close> its exception for a digest of a known scheme that does not parse.
  A \<open>datetime\<close> is a naive UTC instant, counted in microseconds (the resolution of
  Python's \<open>datetime\<close>); \<open>datetime.utcnow()\<close> is the argument \<open>utcnow\<close>.
\<close>

datatype error = NotImplementedError | UnknownHashError | ValueError

type_synonym datetime = int

section \<open>Hashing wrappers: \<open>app/utils/security.py\<close>\<close>

text \<open>
  \<^verbatim>\<open>
  pwd_context = CryptContext(schemes=["bcrypt"], deprecated="auto")

  def verify_password(plain_password, hashed_password):
      return pwd_context.verify(plain_password, hashed_password)
  \<close>
  The context is an object of the \<open>passlib\<close> library. Its \<open>verify\<close> method is a
  field of the record below and the context a parameter of the wrapper; the wrapper
  has no \<open>try\<close>, so what the method raises, the wrapper raises.
\<close>

record 'c crypt_context =
  ctx_verify :: "'c list \<Rightarrow> string \<Rightarrow> error + bool"

definition verify_password :: "'c crypt_context \<Rightarrow> 'c list \<Rightarrow> string \<Rightarrow> error + bool" where
  "verify_password pwd_context plain_password hashed_password =
     ctx_verify pwd_context plain_password hashed_password"

text \<open>
  The context the module builds, \<open>CryptContext(schemes=["bcrypt"])\<close>. Its \<open>verify\<close>
  first identifies the scheme of the digest: a digest is taken for bcrypt when it
  starts with one of the scheme's identifiers, and a digest no scheme claims raises
  \<open>UnknownHashError\<close>. A digest that is identified goes to the scheme's own
  \<open>verify\<close>, which parses it and runs bcrypt; that part stays a parameter,
  \<open>bcrypt_verify\<close>, free to return a boolean or to raise.
\<close>

definition bcrypt_ident_values :: "string list" where
  "bcrypt_ident_values = [''$2$'', ''$2a$'', ''$2x$'', ''$2y$'', ''$2b$'']"

definition startswith :: "string \<Rightarrow> string \<Rightarrow> bool" where
  "startswith s prefix = (take (length prefix) s = prefix)"

definition bcrypt_identify :: "string \<Rightarrow> bool" where
  "bcrypt_identify hash = list_ex (startswith hash) bcrypt_ident_values"

definition CryptContext_verify ::
  "('c list \<Rightarrow> string \<Rightarrow> error + bool) \<Rightarrow> 'c list \<Rightarrow> string \<Rightarrow> error + bool" where
  "CryptContext_verify bcrypt_verify secret hash =
     (if \<not> bcrypt_identify hash then Inl UnknownHashError
      else bcrypt_verify secret hash)"

definition bcrypt_context ::
  "('c list \<Rightarrow> string \<Rightarrow> error + bool) \<Rightarrow> 'c crypt_context" where
  "bcrypt_context bcrypt_verify = \<lparr>ctx_verify = CryptContext_verify bcrypt_verify\<rparr>"

section \<open>Models: \<open>app/models/user.py\<close>\<close>

datatype UserRole = CUSTOMER | SELLER | ADMIN

text \<open>
  The columns of \<open>User\<close>. \<open>locked_until\<close> is nullable: \<open>None\<close> is SQL NULL.
\<close>

record user =
  uid :: string
  email :: string
  is_active :: bool
  is_verified :: bool
  role :: UserRole
  failed_login_attempts :: int
  locked_until :: "datetime option"

text \<open>The columns of \<open>RefreshToken\<close>.\<close>

record refresh_token =
  rt_user_id :: string
  token_hash :: string
  expires_at :: datetime
  revoked :: bool
  device_info :: "string option"

text \<open>
  \<^verbatim>\<open>
  @property
  def is_valid(self) -> bool:
      if self.revoked:
          return False
      if datetime.utcnow() > self.expires_at:
          return False
      return True
  \<close>
\<close>

definition is_valid :: "datetime \<Rightarrow> refresh_token \<Rightarrow> bool" where
  "is_valid utcnow self =
     (if revoked self then False
      else if utcnow > expires_at self then False
      else True)"

section \<open>Settings: \<open>app/config.py\<close>\<close>

record settings =
  SECRET_KEY :: string
  JWT_ALGORITHM :: string
  ACCESS_TOKEN_EXPIRE_MINUTES :: int
  REFRESH_TOKEN_EXPIRE_DAYS :: int
  MAX_LOGIN_ATTEMPTS :: int
  LOGIN_LOCKOUT_MINUTES :: int

definition default_settings :: settings where
  "default_settings =
     \<lparr>SECRET_KEY = ''CAMBIAR_ESTA_CLAVE_EN_PRODUCCION_usar_openssl_rand_hex_32'',
      JWT_ALGORITHM = ''HS256'',
      ACCESS_TOKEN_EXPIRE_MINUTES = 30,
      REFRESH_TOKEN_EXPIRE_DAYS = 7,
      MAX_LOGIN_ATTEMPTS = 5,
      LOGIN_LOCKOUT_MINUTES = 15\<rparr>"

section \<open>Authentication service: \<open>app/services/auth_service.py\<close>\<close>

text \<open>
  The database session the service holds is a table of users by email. A method
  takes the session and returns it with its result, so that a write would show.
\<close>

type_synonym database = "string \<rightharpoonup> user"

text \<open>
  \<^verbatim>\<open>
  async def _is_user_locked(self, user) -> bool:
      # TODO: Implementar
      # if user.locked_until is None:
      #     return False
      # return datetime.utcnow() < user.locked_until
      return False
  \<close>
  The body that runs is the last line. The clock is an argument although the body
  does not read it, so that the method can be asked at an instant.
\<close>

definition is_user_locked :: "datetime \<Rightarrow> user \<Rightarrow> bool" where
  "is_user_locked utcnow usr = False"

text \<open>
  \<^verbatim>\<open>
  async def _handle_failed_login(self, user) -> None:
      # TODO: Implementar
      # user.failed_login_attempts += 1
      # if user.failed_login_attempts >= settings.MAX_LOGIN_ATTEMPTS:
      #     user.locked_until = datetime.utcnow() + timedelta(
      #         minutes=settings.LOGIN_LOCKOUT_MINUTES)
      # await self.db.commit()
      pass
  \<close>
  The body that runs is \<open>pass\<close>. The method returns \<open>None\<close>; the model returns the
  user object as the call leaves it. The settings and the clock are arguments
  although the body reads neither.
\<close>

definition handle_failed_login :: "settings \<Rightarrow> datetime \<Rightarrow> user \<Rightarrow> user" where
  "handle_failed_login cfg utcnow usr = usr"

text \<open>
  \<^verbatim>\<open>
  async def request_password_reset(self, email: str) -> None:
      # TODO: Implementar
      # user = await self._get_user_by_email(email)
      # if not user:
      #     return  # No revelar si existe
      # token = self.token_service.create_reset_token(user.id)
      pass
  \<close>
  Returns \<open>None\<close> (the unit value) and leaves the session as it was.
\<close>

definition AuthService_request_password_reset ::
  "database \<Rightarrow> string \<Rightarrow> database \<times> (error + unit)" where
  "AuthService_request_password_reset db mail = (db, Inr ())"

section \<open>Router: \<open>app/routers/auth_router.py\<close>\<close>

record PasswordResetRequest =
  reset_email :: string

record MessageResponse =
  message :: string
  success :: bool

definition reset_message :: string where
  "reset_message =
     ''Si el email existe, recibir'' @ [CHR 0xE1] @
     ''s instrucciones para resetear tu password''"

text \<open>
  \<^verbatim>\<open>
  async def request_password_reset(request_data: PasswordResetRequest,
                                   db: AsyncSession = Depends(get_db)) -> MessageResponse:
      # TODO: Implementar
      # service = AuthService(db)
      # await service.request_password_reset(request_data.email)
      # Siempre retornar exito por seguridad
      return MessageResponse(message="Si el email existe, ...")
  \<close>
  \<open>success\<close> takes its default, \<open>True\<close>.
\<close>

definition request_password_reset ::
  "PasswordResetRequest \<Rightarrow> database \<Rightarrow> error + MessageResponse" where
  "request_password_reset request_data db =
     Inr \<lparr>message = reset_message, success = True\<rparr>"

section \<open>Token service: \<open>app/services/token_service.py\<close>\<close>

record TokenService =
  secret_key :: string
  algorithm :: string
  access_expire_minutes :: int
  refresh_expire_days :: int

text \<open>\<open>TokenService.__init__\<close> copies four settings.\<close>

definition TokenService_init :: "settings \<Rightarrow> TokenService" where
  "TokenService_init cfg =
     \<lparr>secret_key = SECRET_KEY cfg,
      algorithm = JWT_ALGORITHM cfg,
      access_expire_minutes = ACCESS_TOKEN_EXPIRE_MINUTES cfg,
      refresh_expire_days = REFRESH_TOKEN_EXPIRE_DAYS cfg\<rparr>"

record TokenData =
  sub :: string
  td_email :: "string option"
  td_role :: "string option"
  td_exp :: "datetime option"

text \<open>
  Both methods carry their intended implementation in the docstring only; the body
  of each is
  \<^verbatim>\<open>
      # TODO: Implementar
      raise NotImplementedError("Metodo pendiente de implementar")
  \<close>
\<close>

definition create_access_token ::
  "TokenService \<Rightarrow> datetime \<Rightarrow> user \<Rightarrow> (string \<rightharpoonup> string) option \<Rightarrow> error + string" where
  "create_access_token self utcnow usr additional_claims = Inl NotImplementedError"

definition decode_access_token ::
  "TokenService \<Rightarrow> datetime \<Rightarrow> string \<Rightarrow> error + TokenData option" where
  "decode_access_token self utcnow token = Inl NotImplementedError"

section \<open>Registration schema: \<open>app/schemas/auth.py\<close>\<close>

text \<open>
  \<^verbatim>\<open>
  class UserRegister(BaseModel):
      email: EmailStr = Field(...)
      password: str = Field(..., min_length=8, max_length=100)
      password_confirm: str = Field(...)

      @field_validator("password")
      @classmethod
      def validate_password_strength(cls, v: str) -> str:
          # TODO: Descomentar ... (three commented checks)
          return v

      # TODO: ... @model_validator passwords_match, commented out
  \<close>
  The input is the request body: each key present with a string, or absent.
  \<open>EmailStr\<close> belongs to the validation library; its check is the parameter
  \<open>email_str\<close>, which returns the accepted address or \<open>None\<close>. The library
  validates every field, collects the failures and raises when there is one.
\<close>

datatype issue =
    Missing string
  | Value_error string
  | String_too_short string nat
  | String_too_long string nat

record 'c register_input =
  in_email :: "string option"
  in_password :: "'c list option"
  in_password_confirm :: "'c list option"

record 'c UserRegister =
  reg_email :: string
  reg_password :: "'c list"
  reg_password_confirm :: "'c list"

definition UserRegister_validate_password_strength :: "'c list \<Rightarrow> string + 'c list" where
  "UserRegister_validate_password_strength v = Inr v"

definition validate_email_field ::
  "(string \<Rightarrow> string option) \<Rightarrow> string option \<Rightarrow> issue list + string" where
  "validate_email_field email_str raw =
     (case raw of
        None \<Rightarrow> Inl [Missing ''email'']
      | Some s \<Rightarrow>
          (case email_str s of
             None \<Rightarrow> Inl [Value_error ''email'']
           | Some a \<Rightarrow> Inr a))"

definition validate_password_field :: "'c list option \<Rightarrow> issue list + 'c list" where
  "validate_password_field raw =
     (case raw of
        None \<Rightarrow> Inl [Missing ''password'']
      | Some v \<Rightarrow>
          if length v < 8 then Inl [String_too_short ''password'' 8]
          else if length v > 100 then Inl [String_too_long ''password'' 100]
          else (case UserRegister_validate_password_strength v of
                  Inl msg \<Rightarrow> Inl [Value_error ''password'']
                | Inr v' \<Rightarrow> Inr v'))"

definition validate_password_confirm_field :: "'c list option \<Rightarrow> issue list + 'c list" where
  "validate_password_confirm_field raw =
     (case raw of
        None \<Rightarrow> Inl [Missing ''password_confirm'']
      | Some v \<Rightarrow> Inr v)"

definition issues_of :: "issue list + 'a \<Rightarrow> issue list" where
  "issues_of r = (case r of Inl es \<Rightarrow> es | Inr _ \<Rightarrow> [])"

definition UserRegister_validate ::
  "(string \<Rightarrow> string option) \<Rightarrow> 'c register_input \<Rightarrow> issue list + 'c UserRegister" where
  "UserRegister_validate email_str inp =
     (let e = validate_email_field email_str (in_email inp);
          p = validate_password_field (in_password inp);
          c = validate_password_confirm_field (in_password_confirm inp)
      in case (e, p, c) of
           (Inr a, Inr v, Inr w) \<Rightarrow>
             Inr \<lparr>reg_email = a, reg_password = v, reg_password_confirm = w\<rparr>
         | _ \<Rightarrow> Inl (issues_of e @ issues_of p @ issues_of c))"

text \<open>An address check for concrete runs: one \<open>@\<close> with text on both sides.\<close>

definition simple_email_str :: "string \<Rightarrow> string option" where
  "simple_email_str s =
     (if count_list s CHR ''@'' = 1 \<and> takeWhile (\<lambda>c. c \<noteq> CHR ''@'') s \<noteq> [] \<and>
         last s \<noteq> CHR ''@''
      then Some s else None)"

section \<open>Implementations the source keeps as comments\<close>

text \<open>
  The source documents, in comments and docstrings, the bodies it has yet to enable.
  They are translated here under names of their own, to compare them with the
  bodies that run. \<open>timedelta(minutes=m)\<close> is \<open>m * 60000000\<close> microseconds.
\<close>

text \<open>
  \<^verbatim>\<open>
  # if user.locked_until is None:
  #     return False
  # return datetime.utcnow() < user.locked_until
  \<close>
\<close>

definition is_user_locked_documented :: "datetime \<Rightarrow> user \<Rightarrow> bool" where
  "is_user_locked_documented utcnow usr =
     (case locked_until usr of
        None \<Rightarrow> False
      | Some t \<Rightarrow> utcnow < t)"

text \<open>
  \<^verbatim>\<open>
  # user.failed_login_attempts += 1
  # if user.failed_login_attempts >= settings.MAX_LOGIN_ATTEMPTS:
  #     user.locked_until = datetime.utcnow() + timedelta(
  #         minutes=settings.LOGIN_LOCKOUT_MINUTES)
  \<close>
\<close>

definition handle_failed_login_documented :: "settings \<Rightarrow> datetime \<Rightarrow> user \<Rightarrow> user" where
  "handle_failed_login_documented cfg utcnow usr =
     (let usr1 = usr\<lparr>failed_login_attempts := failed_login_attempts usr + 1\<rparr>
      in if failed_login_attempts usr1 \<ge> MAX_LOGIN_ATTEMPTS cfg
         then usr1\<lparr>locked_until := Some (utcnow + LOGIN_LOCKOUT_MINUTES cfg * 60000000)\<rparr>
         else usr1)"

text \<open>
  The row filter of the query documented in \<open>TokenService.validate_refresh_token\<close>:
  \<^verbatim>\<open>
  select(RefreshToken).where(
      RefreshToken.token_hash == token_hash,
      RefreshToken.revoked == False,
      RefreshToken.expires_at > datetime.utcnow())
  \<close>
\<close>

definition validate_refresh_token_where :: "datetime \<Rightarrow> string \<Rightarrow> refresh_token \<Rightarrow> bool" where
  "validate_refresh_token_where utcnow h t =
     (token_hash t = h \<and> revoked t = False \<and> expires_at t > utcnow)"

section \<open>Concrete inputs\<close>

definition example_user :: user where
  "example_user =
     \<lparr>uid = ''7f3c'', email = ''a@x.com'', is_active = True, is_verified = False,
      role = CUSTOMER, failed_login_attempts = 0, locked_until = None\<rparr>"

definition example_refresh_token :: refresh_token where
  "example_refresh_token =
     \<lparr>rt_user_id = ''7f3c'', token_hash = ''9b74c9897bac770ffc029102a200c5de'',
      expires_at = 1700000000000000, revoked = False, device_info = None\<rparr>"

section \<open>Results\<close>

subsection \<open>Password strength\<close>

lemma err_messages_distinct:
  "distinct [err_min_length, err_uppercase, err_lowercase, err_digit]"
  by (simp add: err_min_length_def err_uppercase_def err_lowercase_def err_digit_def)

lemma strong_password_example:
  "validate_password_strength ascii_isupper ascii_islower ascii_isdigit ''StrongPass123''
     = (True, [])"
  by (simp add: validate_password_strength_def ascii_isupper_def ascii_islower_def
      ascii_isdigit_def)

lemma weak_password_example:
  "validate_password_strength ascii_isupper ascii_islower ascii_isdigit ''weak''
     = (False, [err_min_length, err_uppercase, err_digit])"
  by (simp add: validate_password_strength_def ascii_isupper_def ascii_islower_def
      ascii_isdigit_def)

text \<open>
  Claim C9. For every string \<open>p\<close>, \<open>validate_password_strength p\<close> is
  \<open>(True, [])\<close> exactly when \<open>p\<close> has at least 8 characters, an uppercase letter, a
  lowercase letter and a digit. Otherwise the flag is false and the list holds one
  message per violated rule: its length is the number of violated rules, no message
  is repeated, each of the four messages is in it exactly when its rule is violated,
  and nothing else is in it. In every case the flag is true exactly when the list is
  empty.
\<close>

theorem validate_password_strength_correct:
  "(let r = validate_password_strength isupper islower isdigit password in
     (r = (True, []) \<longleftrightarrow>
        8 \<le> length password \<and> list_ex isupper password \<and>
        list_ex islower password \<and> list_ex isdigit password) \<and>
     (fst r \<longleftrightarrow> snd r = []) \<and>
     (fst r \<longleftrightarrow>
        8 \<le> length password \<and> list_ex isupper password \<and>
        list_ex islower password \<and> list_ex isdigit password) \<and>
     length (snd r) = violated_rules isupper islower isdigit password \<and>
     distinct (snd r) \<and>
     (err_min_length \<in> set (snd r) \<longleftrightarrow> length password < 8) \<and>
     (err_uppercase \<in> set (snd r) \<longleftrightarrow> \<not> list_ex isupper password) \<and>
     (err_lowercase \<in> set (snd r) \<longleftrightarrow> \<not> list_ex islower password) \<and>
     (err_digit \<in> set (snd r) \<longleftrightarrow> \<not> list_ex isdigit password) \<and>
     set (snd r) \<subseteq> {err_min_length, err_uppercase, err_lowercase, err_digit})"
  using err_messages_distinct
  by (auto simp add: validate_password_strength_def violated_rules_def Let_def)

subsection \<open>Registration schema\<close>

text \<open>
  Claim C10. For every registration input whose email the address check accepts and
  whose password has between 8 and 100 characters, \<open>UserRegister\<close> validation
  succeeds and keeps the password and the confirmation as given, whatever the
  confirmation is and whatever characters the password is made of; the schema's
  password validator returns every value unchanged.
\<close>

theorem UserRegister_accepts_weak_unconfirmed:
  assumes "email_str e = Some a" and "8 \<le> length p" and "length p \<le> 100"
  shows "UserRegister_validate email_str
           \<lparr>in_email = Some e, in_password = Some p, in_password_confirm = Some c\<rparr>
         = Inr \<lparr>reg_email = a, reg_password = p, reg_password_confirm = c\<rparr> \<and>
         UserRegister_validate_password_strength p = Inr p"
  using assms
  by (simp add: UserRegister_validate_def validate_email_field_def
      validate_password_field_def validate_password_confirm_field_def
      UserRegister_validate_password_strength_def)

text \<open>
  The schema accepts the password \<open>alllowercase\<close> with the confirmation
  \<open>Different1\<close>: the two differ, and the password has neither an uppercase letter
  nor a digit.
\<close>

theorem UserRegister_accepts_weak_unconfirmed_witness:
  "UserRegister_validate simple_email_str
     \<lparr>in_email = Some ''a@x.com'', in_password = Some ''alllowercase'',
      in_password_confirm = Some ''Different1''\<rparr>
   = Inr \<lparr>reg_email = ''a@x.com'', reg_password = ''alllowercase'',
          reg_password_confirm = ''Different1''\<rparr> \<and>
   ''alllowercase'' \<noteq> ''Different1'' \<and>
   validate_password_strength ascii_isupper ascii_islower ascii_isdigit ''alllowercase''
     = (False, [err_uppercase, err_digit])"
proof -
  have e: "simple_email_str ''a@x.com'' = Some ''a@x.com''"
    by (simp add: simple_email_str_def)
  have l: "8 \<le> length ''alllowercase''" "length ''alllowercase'' \<le> 100"
    by simp_all
  have w: "validate_password_strength ascii_isupper ascii_islower ascii_isdigit
             ''alllowercase'' = (False, [err_uppercase, err_digit])"
    by (simp add: validate_password_strength_def ascii_isupper_def ascii_islower_def
        ascii_isdigit_def)
  from UserRegister_accepts_weak_unconfirmed
      [of simple_email_str "''a@x.com''" "''a@x.com''" "''alllowercase''" "''Different1''"]
    e l w
  show ?thesis by simp
qed

lemma UserRegister_rejects_short_password:
  "UserRegister_validate simple_email_str
     \<lparr>in_email = Some ''a@x.com'', in_password = Some ''Short1'',
      in_password_confirm = Some ''Short1''\<rparr>
   = Inl [String_too_short ''password'' 8]"
  by (simp add: UserRegister_validate_def validate_email_field_def
      validate_password_field_def validate_password_confirm_field_def
      simple_email_str_def issues_of_def)

subsection \<open>Password reset request\<close>

text \<open>
  Claim C6. For every email address, the request-password-reset operation gives the
  same generic success response whether or not an account with that email exists:
  for any two user tables the endpoint returns the same response, which is the
  success message, and the service method returns \<open>None\<close> on both without raising
  and without writing.
\<close>

theorem request_password_reset_uniform:
  "request_password_reset request_data db1 = request_password_reset request_data db2 \<and>
   request_password_reset request_data db1 =
     Inr \<lparr>message = reset_message, success = True\<rparr> \<and>
   snd (AuthService_request_password_reset db1 mail) =
     snd (AuthService_request_password_reset db2 mail) \<and>
   snd (AuthService_request_password_reset db1 mail) = Inr () \<and>
   fst (AuthService_request_password_reset db1 mail) = db1"
  by (simp add: request_password_reset_def AuthService_request_password_reset_def)

lemma request_password_reset_existing_and_absent:
  "request_password_reset \<lparr>reset_email = ''a@x.com''\<rparr> [''a@x.com'' \<mapsto> example_user] =
   request_password_reset \<lparr>reset_email = ''a@x.com''\<rparr> Map.empty"
  by (simp add: request_password_reset_def)

subsection \<open>Password verification\<close>

lemma bcrypt_identify_examples:
  "\<not> bcrypt_identify ''not-a-bcrypt-digest''" "\<not> bcrypt_identify []"
  "\<not> bcrypt_identify ''$2''" "bcrypt_identify ''$2b$12$abc''"
  by (simp_all add: bcrypt_identify_def bcrypt_ident_values_def startswith_def)

text \<open>
  Claim C2 says that for every plaintext and every malformed digest
  \<open>verify_password\<close> returns false and never raises. The code on the digest
  \<open>not-a-bcrypt-digest\<close>, for every plaintext and whatever bcrypt itself would do:
  the context cannot identify the digest and raises \<open>UnknownHashError\<close>, the wrapper
  has no handler, and the call raises instead of returning false.
\<close>

theorem verify_password_malformed_digest_raises:
  "verify_password (bcrypt_context bcrypt_verify) plain_password ''not-a-bcrypt-digest''
     = Inl UnknownHashError \<and>
   verify_password (bcrypt_context bcrypt_verify) plain_password ''not-a-bcrypt-digest''
     \<noteq> Inr False"
  by (simp add: verify_password_def bcrypt_context_def CryptContext_verify_def
      bcrypt_identify_def bcrypt_ident_values_def startswith_def)

text \<open>
  The wrapper adds no handling on any path: an exception of the context, from the
  identification or from bcrypt's parsing of an identified digest, is the wrapper's.
\<close>

lemma verify_password_unidentified:
  "\<not> bcrypt_identify hashed \<Longrightarrow>
   verify_password (bcrypt_context bcrypt_verify) plain hashed = Inl UnknownHashError"
  by (simp add: verify_password_def bcrypt_context_def CryptContext_verify_def)

lemma verify_password_identified:
  "bcrypt_identify hashed \<Longrightarrow>
   verify_password (bcrypt_context bcrypt_verify) plain hashed = bcrypt_verify plain hashed"
  by (simp add: verify_password_def bcrypt_context_def CryptContext_verify_def)

subsection \<open>Refresh token validity\<close>

lemma is_valid_iff:
  "is_valid utcnow t \<longleftrightarrow> \<not> revoked t \<and> utcnow \<le> expires_at t"
  by (simp add: is_valid_def not_less)

text \<open>
  The documented query keeps a row only strictly before its expiry, so at the
  instant \<open>expires_at\<close> the two checks of the same row disagree.
\<close>

lemma validate_refresh_token_where_iff:
  "validate_refresh_token_where utcnow (token_hash t) t \<longleftrightarrow>
     \<not> revoked t \<and> utcnow < expires_at t"
  by (simp add: validate_refresh_token_where_def)

lemma is_valid_disagrees_with_query:
  "\<not> revoked t \<Longrightarrow>
   is_valid (expires_at t) t \<and>
   \<not> validate_refresh_token_where (expires_at t) (token_hash t) t"
  by (simp add: is_valid_iff validate_refresh_token_where_def)

text \<open>
  Claim C1 says a token is valid exactly when it is not revoked and the current
  instant is strictly before \<open>expires_at\<close>, so that a token is not valid at the
  instant \<open>expires_at\<close> itself. The code at that instant: the token is not revoked,
  the instant is not strictly before \<open>expires_at\<close>, and \<open>is_valid\<close> is true.
\<close>

theorem is_valid_at_expiry_instant:
  "is_valid (expires_at example_refresh_token) example_refresh_token = True \<and>
   revoked example_refresh_token = False \<and>
   \<not> (expires_at example_refresh_token < expires_at example_refresh_token)"
  by (simp add: is_valid_def example_refresh_token_def)

subsection \<open>Lockout\<close>

text \<open>
  Claim C3 says the lock check is true exactly when \<open>locked_until\<close> is set and the
  current instant is strictly before it. The code on a user locked until instant
  2000, asked at instant 1000: the check is false.
\<close>

theorem is_user_locked_while_locked:
  "is_user_locked 1000 (example_user\<lparr>locked_until := Some 2000\<rparr>) = False \<and>
   locked_until (example_user\<lparr>locked_until := Some 2000\<rparr>) = Some 2000 \<and>
   (1000::datetime) < 2000"
  by (simp add: is_user_locked_def)

lemma is_user_locked_never: "is_user_locked utcnow usr = False"
  by (simp add: is_user_locked_def)

text \<open>The commented body is the check the docstring describes.\<close>

lemma is_user_locked_documented_iff:
  "is_user_locked_documented utcnow usr \<longleftrightarrow>
     (\<exists>t. locked_until usr = Some t \<and> utcnow < t)"
  by (simp add: is_user_locked_documented_def split: option.split)

lemma is_user_locked_differs_from_documented:
  "is_user_locked 1000 (example_user\<lparr>locked_until := Some 2000\<rparr>) \<noteq>
   is_user_locked_documented 1000 (example_user\<lparr>locked_until := Some 2000\<rparr>)"
  by (simp add: is_user_locked_def is_user_locked_documented_def)

text \<open>
  Claim C5 says the failed-login handler adds one to the counter of failed attempts
  and, when the new count reaches \<open>MAX_LOGIN_ATTEMPTS\<close>, sets \<open>locked_until\<close> to the
  current instant plus the lockout duration. The code on a user with no failed
  attempt leaves the counter at 0; on a user with 4 failed attempts and a maximum
  of 5 it leaves the user as it was, \<open>locked_until\<close> unset.
\<close>

theorem handle_failed_login_changes_nothing:
  "failed_login_attempts (handle_failed_login default_settings 1000 example_user) = 0 \<and>
   failed_login_attempts example_user = 0 \<and>
   handle_failed_login default_settings 1000 (example_user\<lparr>failed_login_attempts := 4\<rparr>)
     = example_user\<lparr>failed_login_attempts := 4\<rparr> \<and>
   locked_until (handle_failed_login default_settings 1000
     (example_user\<lparr>failed_login_attempts := 4\<rparr>)) = None \<and>
   MAX_LOGIN_ATTEMPTS default_settings = 5"
  by (simp add: handle_failed_login_def example_user_def default_settings_def)

text \<open>The commented body counts the failure and locks at the maximum.\<close>

lemma handle_failed_login_documented_counter:
  "failed_login_attempts (handle_failed_login_documented cfg utcnow usr) =
     failed_login_attempts usr + 1"
  by (simp add: handle_failed_login_documented_def Let_def)

lemma handle_failed_login_documented_lock:
  "locked_until (handle_failed_login_documented cfg utcnow usr) =
     (if failed_login_attempts usr + 1 \<ge> MAX_LOGIN_ATTEMPTS cfg
      then Some (utcnow + LOGIN_LOCKOUT_MINUTES cfg * 60000000)
      else locked_until usr)"
  by (simp add: handle_failed_login_documented_def Let_def)

lemma handle_failed_login_documented_fifth_failure:
  "handle_failed_login_documented default_settings 1000
     (example_user\<lparr>failed_login_attempts := 4\<rparr>) =
   example_user\<lparr>failed_login_attempts := 5, locked_until := Some 900001000\<rparr>"
  by (simp add: handle_failed_login_documented_def Let_def default_settings_def
      example_user_def)

subsection \<open>Access tokens\<close>

text \<open>
  Claim C8 says that decoding an access token just minted for a user returns the
  user's id, email and role until the expiry passes. The code on the example user:
  minting raises \<open>NotImplementedError\<close>, so there is no token to decode, and
  decoding any string raises \<open>NotImplementedError\<close> as well.
\<close>

theorem access_token_round_trip_raises:
  "create_access_token (TokenService_init default_settings) 1000 example_user None
     = Inl NotImplementedError \<and>
   decode_access_token (TokenService_init default_settings) 1000 token
     = Inl NotImplementedError"
  by (simp add: create_access_token_def decode_access_token_def)


end
